theory Spec2Isabelle
  imports Main "HOL-Library.Char_ord" "HOL-Library.List_Lexorder"
begin

section \<open>Python values, types and exceptions\<close>

text \<open>
  The options dictionary of \<^verbatim>\<open>openmdao/utils/options_dictionary.py\<close> stores arbitrary
  Python objects. The embedding covers the values the checks of the module tell apart:
  \<^verbatim>\<open>None\<close>, booleans, integers, strings and the sentinel \<^verbatim>\<open>_UNDEFINED\<close>.
\<close>

text \<open>
  Modelled from the spec: \<^verbatim>\<open>_UNDEFINED\<close> is imported from
  \<^verbatim>\<open>openmdao.core.constants\<close>, which is not among the sources; the spec describes it as a
  sentinel "unset" state distinguishable from \<^verbatim>\<open>None\<close>. It is the constructor
  \<open>PUndefined\<close>, equal to itself only.
\<close>

datatype pyval = PNone | PUndefined | PBool bool | PInt int | PStr string

datatype pytype = T_object | T_NoneType | T_sentinel | T_bool | T_int | T_str

fun type_of :: "pyval \<Rightarrow> pytype" where
  "type_of PNone = T_NoneType"
| "type_of PUndefined = T_sentinel"
| "type_of (PBool b) = T_bool"
| "type_of (PInt i) = T_int"
| "type_of (PStr s) = T_str"

text \<open>\<^verbatim>\<open>issubclass\<close>: every class derives from \<^verbatim>\<open>object\<close>, and \<^verbatim>\<open>bool\<close> from \<^verbatim>\<open>int\<close>.\<close>

definition issubclass :: "pytype \<Rightarrow> pytype \<Rightarrow> bool" where
  "issubclass c t \<longleftrightarrow> t = T_object \<or> c = t \<or> (c = T_bool \<and> t = T_int)"

text \<open>The numeric reading of a value: \<^verbatim>\<open>True\<close> is 1 and \<^verbatim>\<open>False\<close> is 0.\<close>

fun num_of :: "pyval \<Rightarrow> int option" where
  "num_of (PBool b) = Some (if b then 1 else 0)"
| "num_of (PInt i) = Some i"
| "num_of v = None"

text \<open>Python's \<^verbatim>\<open>==\<close>: numbers compare by value across \<^verbatim>\<open>bool\<close> and \<^verbatim>\<open>int\<close>.\<close>

definition py_eq :: "pyval \<Rightarrow> pyval \<Rightarrow> bool" where
  "py_eq a b =
     (case (num_of a, num_of b) of
        (Some x, Some y) \<Rightarrow> x = y
      | _ \<Rightarrow> a = b)"

text \<open>\<^verbatim>\<open>value in values\<close> for a set, list or tuple: some element is equal to the value.\<close>

definition py_in :: "pyval \<Rightarrow> pyval list \<Rightarrow> bool" where
  "py_in v vs = list_ex (py_eq v) vs"

datatype exc_type = KeyError | ValueError | TypeError | RuntimeError

text \<open>
  The text of an exception, kept structured: the constructor is the sentence of the source and
  its arguments are the objects the f-string formats.
\<close>

datatype message =
    NotValid string pyval
  | ValuesArgNotSeq string
  | TypesArgNotType string
  | TypesAndValuesBoth string
  | NotOneOf string pyval "pyval list"
  | WrongType string pyval pytype
  | ExceedsMaximum string pyval pyval
  | LessThanMinimum string pyval pyval
  | CannotBeSet string
  | ReadOnlyOption string
  | CannotBeFound string
  | RequiredNotSet string
  | MissingKey string
  | NotOrderable pyval pyval
  | IsinstanceArg2
  | NotIterable

text \<open>
  An exception: its class, the parent name \<^verbatim>\<open>_raise\<close> prefixes (if any) and its message.
\<close>

datatype exn = Exn exc_type "string option" message

type_synonym 'a result = "exn + 'a"

text \<open>
  \<^verbatim>\<open>value > upper\<close> and \<^verbatim>\<open>value < lower\<close>: numbers compare by value, strings
  lexicographically; any other pair raises Python's own \<^verbatim>\<open>TypeError\<close>.
\<close>

definition py_gt :: "pyval \<Rightarrow> pyval \<Rightarrow> bool result" where
  "py_gt a b =
     (case (num_of a, num_of b) of
        (Some x, Some y) \<Rightarrow> Inr (x > y)
      | _ \<Rightarrow> (case (a, b) of
                (PStr s, PStr t) \<Rightarrow> Inr (s > t)
              | _ \<Rightarrow> Inl (Exn TypeError None (NotOrderable a b))))"

definition py_lt :: "pyval \<Rightarrow> pyval \<Rightarrow> bool result" where
  "py_lt a b =
     (case (num_of a, num_of b) of
        (Some x, Some y) \<Rightarrow> Inr (x < y)
      | _ \<Rightarrow> (case (a, b) of
                (PStr s, PStr t) \<Rightarrow> Inr (s < t)
              | _ \<Rightarrow> Inl (Exn TypeError None (NotOrderable a b))))"

section \<open>The arguments of a declaration\<close>

text \<open>
  The \<^verbatim>\<open>values\<close> argument: \<^verbatim>\<open>None\<close>, a set, list or tuple of values, or an object of
  another kind, such as a number (which \<^verbatim>\<open>declare\<close> refuses, and in which Python's
  \<^verbatim>\<open>in\<close> raises \<^verbatim>\<open>TypeError\<close>).
\<close>

datatype values_arg = ValuesNone | Values "pyval list" | ValuesOther

text \<open>
  The \<^verbatim>\<open>types\<close> argument: \<^verbatim>\<open>None\<close>, one type, a tuple of types, a set or list of
  types, or an object of another kind (which \<^verbatim>\<open>declare\<close> refuses).
\<close>

datatype types_arg =
  TypesNone | TypeOne pytype | TypeTuple "pytype list" | TypeSetOrList "pytype list" | TypesOther

text \<open>
  \<^verbatim>\<open>isinstance(value, types)\<close>: the second argument must be a type or a tuple of types;
  Python raises \<^verbatim>\<open>TypeError\<close> for a set, a list or anything else.
\<close>

fun isinstance :: "pyval \<Rightarrow> types_arg \<Rightarrow> bool result" where
  "isinstance v (TypeOne t) = Inr (issubclass (type_of v) t)"
| "isinstance v (TypeTuple ts) = Inr (list_ex (issubclass (type_of v)) ts)"
| "isinstance v ta = Inl (Exn TypeError None IsinstanceArg2)"

text \<open>
  A user-supplied \<^verbatim>\<open>check_valid(name, value)\<close>: it returns, or raises an exception of its
  own choice. It is taken to have no other effect on the dictionary.
\<close>

type_synonym validator = "string \<Rightarrow> pyval \<Rightarrow> exn option"

text \<open>The module's template for such a function: it raises for every value.\<close>

definition check_valid :: validator where
  "check_valid name v = Some (Exn ValueError None (NotValid name v))"

section \<open>The dictionary\<close>

text \<open>One entry of \<^verbatim>\<open>_dict\<close>, with the keys \<^verbatim>\<open>declare\<close> gives it.\<close>

record meta =
  val :: pyval
  values_m :: values_arg
  types :: types_arg
  desc :: string
  upper :: pyval
  lower :: pyval
  check_valid_m :: "validator option"
  has_been_set :: bool
  allow_none :: bool
  recordable :: bool
  deprecation :: "string option"
  need_deprecation :: bool

text \<open>
  A call the dictionary makes to a collaborator outside it: the deprecation notifier
  \<^verbatim>\<open>warn_deprecation\<close> with its argument, or a slot's \<^verbatim>\<open>check_valid\<close> function with its
  arguments.
\<close>

datatype call = WarnDeprecation "string option" | CallCheckValid string pyval

text \<open>
  The object's attributes, and with them the log of the outside calls made so far (the newest
  last), which is how the effects of those calls are observed.
\<close>

record options_dictionary =
  dict :: "string \<rightharpoonup> meta"
  parent_name :: "string option"
  read_only :: bool
  all_recordable :: bool
  calls :: "call list"

definition init :: "string option \<Rightarrow> bool \<Rightarrow> options_dictionary" where
  "init pn ro = \<lparr>dict = Map.empty, parent_name = pn, read_only = ro,
                 all_recordable = True, calls = []\<rparr>"

text \<open>\<^verbatim>\<open>_raise\<close>: the exception that is raised, the parent's name prepended when there is one.\<close>

definition raise :: "options_dictionary \<Rightarrow> message \<Rightarrow> exc_type \<Rightarrow> exn" where
  "raise self msg et = Exn et (parent_name self) msg"

section \<open>Validation\<close>

text \<open>
  The first two checks of \<^verbatim>\<open>_assert_valid\<close>: membership in \<^verbatim>\<open>values\<close> when it is not
  \<^verbatim>\<open>None\<close>, else the \<^verbatim>\<open>isinstance\<close> test when \<^verbatim>\<open>types\<close> is not \<^verbatim>\<open>None\<close>. The result is
  the exception raised, if any. (Before raising, the source rebinds a string value to its
  quoted form for the message only.)
\<close>

definition check_values_types ::
  "options_dictionary \<Rightarrow> string \<Rightarrow> meta \<Rightarrow> pyval \<Rightarrow> exn option" where
  "check_values_types self name m v =
     (case values_m m of
        Values vs \<Rightarrow>
          (if \<not> py_in v vs then Some (raise self (NotOneOf name v vs) ValueError) else None)
      | ValuesOther \<Rightarrow> Some (Exn TypeError None NotIterable)
      | ValuesNone \<Rightarrow>
          (if types m \<noteq> TypesNone then
             (case isinstance v (types m) of
                Inl e \<Rightarrow> Some e
              | Inr ok \<Rightarrow>
                  (if \<not> ok then Some (raise self (WrongType name v (type_of v)) TypeError)
                   else None))
           else None))"

text \<open>The bounds checks: first \<^verbatim>\<open>upper\<close>, then \<^verbatim>\<open>lower\<close>, each only when it is not \<^verbatim>\<open>None\<close>.\<close>

definition check_upper :: "options_dictionary \<Rightarrow> string \<Rightarrow> meta \<Rightarrow> pyval \<Rightarrow> exn option" where
  "check_upper self name m v =
     (if upper m \<noteq> PNone then
        (case py_gt v (upper m) of
           Inl e \<Rightarrow> Some e
         | Inr gt \<Rightarrow>
             (if gt then Some (raise self (ExceedsMaximum name v (upper m)) ValueError)
              else None))
      else None)"

definition check_lower :: "options_dictionary \<Rightarrow> string \<Rightarrow> meta \<Rightarrow> pyval \<Rightarrow> exn option" where
  "check_lower self name m v =
     (if lower m \<noteq> PNone then
        (case py_lt v (lower m) of
           Inl e \<Rightarrow> Some e
         | Inr lt \<Rightarrow>
             (if lt then Some (raise self (LessThanMinimum name v (lower m)) ValueError)
              else None))
      else None)"

text \<open>
  The block guarded by \<^verbatim>\<open>if not (value is None and meta['allow_none'])\<close>: the checks in the
  order of the source, the first exception ending it.
\<close>

definition guarded_checks ::
  "options_dictionary \<Rightarrow> string \<Rightarrow> meta \<Rightarrow> pyval \<Rightarrow> exn option" where
  "guarded_checks self name m v =
     (if \<not> (v = PNone \<and> allow_none m) then
        (case check_values_types self name m v of
           Some e \<Rightarrow> Some e
         | None \<Rightarrow>
             (case check_upper self name m v of
                Some e \<Rightarrow> Some e
              | None \<Rightarrow> check_lower self name m v))
      else None)"

text \<open>
  \<^verbatim>\<open>_assert_valid\<close>: the guarded checks, and after them, outside the guard, the call of the
  slot's \<^verbatim>\<open>check_valid\<close> function when there is one.
\<close>

definition assert_valid ::
  "options_dictionary \<Rightarrow> string \<Rightarrow> pyval \<Rightarrow> options_dictionary \<times> unit result" where
  "assert_valid self name v =
     (case dict self name of
        None \<Rightarrow> (self, Inl (Exn KeyError None (MissingKey name)))
      | Some m \<Rightarrow>
          (case guarded_checks self name m v of
             Some e \<Rightarrow> (self, Inl e)
           | None \<Rightarrow>
               (case check_valid_m m of
                  None \<Rightarrow> (self, Inr ())
                | Some f \<Rightarrow>
                    (let self' = self\<lparr>calls := calls self @ [CallCheckValid name v]\<rparr>
                     in (case f name v of
                           Some e \<Rightarrow> (self', Inl e)
                         | None \<Rightarrow> (self', Inr ()))))))"

section \<open>Declaration\<close>

text \<open>The method \<^verbatim>\<open>declare\<close> is the function \<open>declare_option\<close> here.\<close>

text \<open>The arguments of \<^verbatim>\<open>declare\<close> after the name, and their default values.\<close>

record declare_args =
  arg_default :: pyval
  arg_values :: values_arg
  arg_types :: types_arg
  arg_desc :: string
  arg_upper :: pyval
  arg_lower :: pyval
  arg_check_valid :: "validator option"
  arg_allow_none :: bool
  arg_recordable :: bool
  arg_deprecation :: "string option"

definition declare_defaults :: declare_args where
  "declare_defaults =
     \<lparr>arg_default = PUndefined, arg_values = ValuesNone, arg_types = TypesNone, arg_desc = [],
      arg_upper = PNone, arg_lower = PNone, arg_check_valid = None, arg_allow_none = False,
      arg_recordable = True, arg_deprecation = None\<rparr>"

text \<open>The entry \<^verbatim>\<open>declare\<close> stores under the name.\<close>

definition new_meta :: "declare_args \<Rightarrow> meta" where
  "new_meta a =
     (let values = (if arg_types a = TypeOne T_bool then Values [PBool True, PBool False]
                    else arg_values a);
          default_provided = (arg_default a \<noteq> PUndefined);
          allow_none' = (if default_provided \<and> arg_default a = PNone then True
                         else arg_allow_none a)
      in \<lparr>val = arg_default a, values_m = values, types = arg_types a, desc = arg_desc a,
          upper = arg_upper a, lower = arg_lower a, check_valid_m = arg_check_valid a,
          has_been_set = default_provided, allow_none = allow_none',
          recordable = arg_recordable a, deprecation = arg_deprecation a,
          need_deprecation = (arg_deprecation a \<noteq> None)\<rparr>)"

definition declare_option ::
  "options_dictionary \<Rightarrow> string \<Rightarrow> declare_args \<Rightarrow> options_dictionary \<times> unit result" where
  "declare_option self name a =
     (if arg_values a = ValuesOther then
        (self, Inl (raise self (ValuesArgNotSeq name) TypeError))
      else if arg_types a = TypesOther then
        (self, Inl (raise self (TypesArgNotType name) TypeError))
      else if arg_types a \<noteq> TypesNone \<and> arg_values a \<noteq> ValuesNone then
        (self, Inl (raise self (TypesAndValuesBoth name) RuntimeError))
      else
        (let self1 = (if \<not> arg_recordable a then self\<lparr>all_recordable := False\<rparr> else self);
             self2 = self1\<lparr>dict := (dict self1)(name \<mapsto> new_meta a)\<rparr>
         in if arg_default a \<noteq> PUndefined then assert_valid self2 name (arg_default a)
            else (self2, Inr ())))"

section \<open>Reading and writing\<close>

text \<open>
  The three lines \<^verbatim>\<open>__setitem__\<close> and \<^verbatim>\<open>__getitem__\<close> share: when the entry still needs
  its deprecation warning, \<^verbatim>\<open>warn_deprecation\<close> is called with the entry's message and the
  flag is cleared in the entry.
\<close>

definition deprecate :: "options_dictionary \<Rightarrow> string \<Rightarrow> meta \<Rightarrow> options_dictionary \<times> meta" where
  "deprecate self name m =
     (if need_deprecation m then
        (let m' = m\<lparr>need_deprecation := False\<rparr>
         in (self\<lparr>dict := (dict self)(name \<mapsto> m'),
                  calls := calls self @ [WarnDeprecation (deprecation m)]\<rparr>, m'))
      else (self, m))"

definition setitem ::
  "options_dictionary \<Rightarrow> string \<Rightarrow> pyval \<Rightarrow> options_dictionary \<times> unit result" where
  "setitem self name v =
     (case dict self name of
        None \<Rightarrow> (self, Inl (raise self (CannotBeSet name) KeyError))
      | Some m0 \<Rightarrow>
          (case deprecate self name m0 of
             (self1, m) \<Rightarrow>
               (if read_only self1 then
                  (self1, Inl (raise self1 (ReadOnlyOption name) KeyError))
                else
                  (case assert_valid self1 name v of
                     (self2, Inl e) \<Rightarrow> (self2, Inl e)
                   | (self2, Inr u) \<Rightarrow>
                       (self2\<lparr>dict := (dict self2)(name \<mapsto> m\<lparr>val := v, has_been_set := True\<rparr>)\<rparr>,
                        Inr ())))))"

definition getitem ::
  "options_dictionary \<Rightarrow> string \<Rightarrow> options_dictionary \<times> pyval result" where
  "getitem self name =
     (case dict self name of
        None \<Rightarrow> (self, Inl (raise self (CannotBeFound name) KeyError))
      | Some m0 \<Rightarrow>
          (case deprecate self name m0 of
             (self1, m) \<Rightarrow>
               (if has_been_set m then (self1, Inr (val m))
                else (self1, Inl (raise self1 (RequiredNotSet name) RuntimeError)))))"

text \<open>\<^verbatim>\<open>get\<close>: the stored value when the name is in \<^verbatim>\<open>_dict\<close>, else the given default.\<close>

definition get ::
  "options_dictionary \<Rightarrow> string \<Rightarrow> pyval \<Rightarrow> options_dictionary \<times> pyval result" where
  "get self name dflt =
     (case dict self name of
        Some m \<Rightarrow> (self, Inr (val m))
      | None \<Rightarrow> (self, Inr dflt))"

definition undeclare :: "options_dictionary \<Rightarrow> string \<Rightarrow> options_dictionary" where
  "undeclare self name =
     (if name \<in> dom (dict self) then self\<lparr>dict := (dict self)(name := None)\<rparr> else self)"


section \<open>Sequences of accesses\<close>

text \<open>
  The three argument checks at the head of \<^verbatim>\<open>declare\<close>: when one of them fires, the
  declaration raises before it stores anything.
\<close>

definition args_refused :: "declare_args \<Rightarrow> bool" where
  "args_refused a \<longleftrightarrow>
     arg_values a = ValuesOther \<or> arg_types a = TypesOther \<or>
     (arg_types a \<noteq> TypesNone \<and> arg_values a \<noteq> ValuesNone)"

text \<open>
  A caller's access to one name: \<^verbatim>\<open>opts[name]\<close> or \<^verbatim>\<open>opts[name] = value\<close>. \<open>perform\<close> is
  the dictionary after the access, whether it returned or raised, and \<open>run\<close> the dictionary
  after a sequence of accesses, each exception caught by the caller.
\<close>

datatype access = Read | Write pyval

fun perform :: "options_dictionary \<Rightarrow> string \<Rightarrow> access \<Rightarrow> options_dictionary" where
  "perform self name Read = fst (getitem self name)"
| "perform self name (Write v) = fst (setitem self name v)"

fun run :: "options_dictionary \<Rightarrow> string \<Rightarrow> access list \<Rightarrow> options_dictionary" where
  "run self name [] = self"
| "run self name (x # xs) = run (perform self name x) name xs"

text \<open>Whether every write of the sequence raises.\<close>

fun no_write_succeeds :: "options_dictionary \<Rightarrow> string \<Rightarrow> access list \<Rightarrow> bool" where
  "no_write_succeeds self name [] = True"
| "no_write_succeeds self name (Read # xs) = no_write_succeeds (perform self name Read) name xs"
| "no_write_succeeds self name (Write v # xs) =
     (isl (snd (setitem self name v)) \<and> no_write_succeeds (perform self name (Write v)) name xs)"

text \<open>The arguments of the calls of \<^verbatim>\<open>warn_deprecation\<close> in a log, in order.\<close>

fun notices :: "call list \<Rightarrow> string option list" where
  "notices [] = []"
| "notices (WarnDeprecation msg # cs) = msg # notices cs"
| "notices (CallCheckValid name v # cs) = notices cs"

text \<open>The calls of \<^verbatim>\<open>check_valid\<close> functions in a log, in order.\<close>

fun validations :: "call list \<Rightarrow> (string \<times> pyval) list" where
  "validations [] = []"
| "validations (WarnDeprecation msg # cs) = validations cs"
| "validations (CallCheckValid name v # cs) = (name, v) # validations cs"

section \<open>Example dictionaries\<close>

text \<open>
  \<^verbatim>\<open>declare('x', values=[1, 2], upper=0, allow_none=True)\<close>, and the same with the module's
  \<^verbatim>\<open>check_valid\<close> as the validator.
\<close>

definition ex_none_args :: declare_args where
  "ex_none_args = declare_defaults\<lparr>arg_values := Values [PInt 1, PInt 2], arg_upper := PInt 0,
                                   arg_allow_none := True\<rparr>"

definition ex_none :: options_dictionary where
  "ex_none = fst (declare_option (init None False) ''x'' ex_none_args)"

definition ex_none_checked :: options_dictionary where
  "ex_none_checked =
     fst (declare_option (init None False) ''x'' (ex_none_args\<lparr>arg_check_valid := Some check_valid\<rparr>))"

text \<open>\<^verbatim>\<open>declare('flag', types=bool)\<close>.\<close>

definition ex_flag :: options_dictionary where
  "ex_flag = fst (declare_option (init None False) ''flag''
                   (declare_defaults\<lparr>arg_types := TypeOne T_bool\<rparr>))"



text \<open>\<^verbatim>\<open>declare('old', deprecation='use new')\<close>, in a writable and in a read-only dictionary.\<close>

definition ex_old_args :: declare_args where
  "ex_old_args = declare_defaults\<lparr>arg_deprecation := Some ''use new''\<rparr>"

definition ex_old :: options_dictionary where
  "ex_old = fst (declare_option (init None False) ''old'' ex_old_args)"

definition ex_old_ro :: options_dictionary where
  "ex_old_ro = fst (declare_option (init None True) ''old'' ex_old_args)"


text \<open>\<^verbatim>\<open>declare('mode', default=5, values=[1, 2])\<close>: the default is not one of the values.\<close>

definition ex_mode_args :: declare_args where
  "ex_mode_args = declare_defaults\<lparr>arg_default := PInt 5, arg_values := Values [PInt 1, PInt 2]\<rparr>"



section \<open>Basic facts about the operations\<close>

text \<open>The exceptions of the checks depend on the dictionary through the parent's name only.\<close>

lemma raise_parent: "parent_name s = parent_name s' \<Longrightarrow> raise s msg et = raise s' msg et"
  by (simp add: raise_def)





lemma assert_valid_keeps:
  "dict (fst (assert_valid self name v)) = dict self"
  "parent_name (fst (assert_valid self name v)) = parent_name self"
  "read_only (fst (assert_valid self name v)) = read_only self"
  "all_recordable (fst (assert_valid self name v)) = all_recordable self"
  by (simp_all add: assert_valid_def Let_def split: option.splits)

lemma deprecate_snd: "snd (deprecate self name m) = m\<lparr>need_deprecation := False\<rparr>"
  by (simp add: deprecate_def Let_def)

lemma deprecate_keeps:
  "parent_name (fst (deprecate self name m)) = parent_name self"
  "read_only (fst (deprecate self name m)) = read_only self"
  "all_recordable (fst (deprecate self name m)) = all_recordable self"
  by (simp_all add: deprecate_def Let_def)

lemma deprecate_dict:
  "dict self name = Some m \<Longrightarrow>
   dict (fst (deprecate self name m)) = (dict self)(name \<mapsto> m\<lparr>need_deprecation := False\<rparr>)"
  by (auto simp add: deprecate_def Let_def fun_eq_iff)

lemma deprecate_calls:
  "calls (fst (deprecate self name m)) =
     calls self @ (if need_deprecation m then [WarnDeprecation (deprecation m)] else [])"
  by (simp add: deprecate_def Let_def)

text \<open>What \<^verbatim>\<open>_assert_valid\<close>, \<^verbatim>\<open>__setitem__\<close> and \<^verbatim>\<open>__getitem__\<close> do on a declared name.\<close>

lemma assert_valid_declared:
  "dict self name = Some m \<Longrightarrow>
   assert_valid self name v =
     (case guarded_checks self name m v of
        Some e \<Rightarrow> (self, Inl e)
      | None \<Rightarrow>
          (case check_valid_m m of
             None \<Rightarrow> (self, Inr ())
           | Some f \<Rightarrow>
               (self\<lparr>calls := calls self @ [CallCheckValid name v]\<rparr>,
                case f name v of Some e \<Rightarrow> Inl e | None \<Rightarrow> Inr ())))"
  by (simp add: assert_valid_def Let_def split: option.splits)

lemma setitem_undeclared:
  "dict self name = None \<Longrightarrow>
   setitem self name v = (self, Inl (raise self (CannotBeSet name) KeyError))"
  by (simp add: setitem_def)

lemma setitem_declared:
  assumes "dict self name = Some m0"
  shows "setitem self name v =
     (if read_only self then
        (fst (deprecate self name m0), Inl (raise self (ReadOnlyOption name) KeyError))
      else
        (case snd (assert_valid (fst (deprecate self name m0)) name v) of
           Inl e \<Rightarrow> (fst (assert_valid (fst (deprecate self name m0)) name v), Inl e)
         | Inr u \<Rightarrow>
             ((fst (assert_valid (fst (deprecate self name m0)) name v))
                \<lparr>dict := (dict self)(name \<mapsto>
                    m0\<lparr>need_deprecation := False, val := v, has_been_set := True\<rparr>)\<rparr>,
              Inr ())))"
proof -
  obtain self1 m where d: "deprecate self name m0 = (self1, m)"
    by (cases "deprecate self name m0")
  have m: "m = m0\<lparr>need_deprecation := False\<rparr>"
    using d deprecate_snd [of self name m0] by simp
  have s1: "self1 = fst (deprecate self name m0)"
    using d by simp
  have ro: "read_only self1 = read_only self" and pn: "parent_name self1 = parent_name self"
    by (simp_all add: s1 deprecate_keeps)
  have d1: "dict self1 = (dict self)(name \<mapsto> m)"
    using assms by (simp add: s1 m deprecate_dict)
  obtain self2 r where a: "assert_valid self1 name v = (self2, r)"
    by (cases "assert_valid self1 name v")
  have d2: "dict self2 = dict self1"
    using a assert_valid_keeps(1) [of self1 name v] by simp
  show ?thesis
    using assms d a
    by (simp add: setitem_def ro raise_parent [OF pn] s1 [symmetric] d2 d1 m
        split: sum.splits)
qed

lemma setitem_keeps:
  "parent_name (fst (setitem self name v)) = parent_name self"
  "read_only (fst (setitem self name v)) = read_only self"
  "all_recordable (fst (setitem self name v)) = all_recordable self"
  by (cases "dict self name";
      simp add: setitem_undeclared setitem_declared deprecate_keeps assert_valid_keeps
        split: sum.splits)+

lemma setitem_dict_fail:
  assumes "dict self name = Some m0" "snd (setitem self name v) = Inl e"
  shows "dict (fst (setitem self name v)) = (dict self)(name \<mapsto> m0\<lparr>need_deprecation := False\<rparr>)"
  using assms
  by (simp add: setitem_declared [OF assms(1)] assert_valid_keeps deprecate_dict
      split: if_splits sum.splits)

lemma setitem_dict_ok:
  assumes "dict self name = Some m0" "snd (setitem self name v) = Inr u"
  shows "dict (fst (setitem self name v)) =
    (dict self)(name \<mapsto> m0\<lparr>need_deprecation := False, val := v, has_been_set := True\<rparr>)"
  using assms
  by (simp add: setitem_declared [OF assms(1)] split: if_splits sum.splits)


lemma getitem_undeclared:
  "dict self name = None \<Longrightarrow>
   getitem self name = (self, Inl (raise self (CannotBeFound name) KeyError))"
  by (simp add: getitem_def)

lemma getitem_declared:
  "dict self name = Some m0 \<Longrightarrow>
   getitem self name =
     (fst (deprecate self name m0),
      if has_been_set m0 then Inr (val m0)
      else Inl (raise self (RequiredNotSet name) RuntimeError))"
  by (simp add: getitem_def deprecate_def Let_def raise_def)

text \<open>What a declaration stores, and the deprecation notices of a sequence of accesses.\<close>

lemma declare_option_refused:
  "args_refused a \<Longrightarrow> fst (declare_option self name a) = self \<and> isl (snd (declare_option self name a))"
  by (auto simp add: declare_option_def args_refused_def)

lemma declare_option_accepted:
  assumes "\<not> args_refused a"
  shows "declare_option self name a =
     (if arg_default a \<noteq> PUndefined then
        assert_valid
          (self\<lparr>all_recordable := all_recordable self \<and> arg_recordable a,
                dict := (dict self)(name \<mapsto> new_meta a)\<rparr>) name (arg_default a)
      else
        (self\<lparr>all_recordable := all_recordable self \<and> arg_recordable a,
              dict := (dict self)(name \<mapsto> new_meta a)\<rparr>, Inr ()))"
proof -
  have "(if \<not> arg_recordable a then self\<lparr>all_recordable := False\<rparr> else self) =
        self\<lparr>all_recordable := all_recordable self \<and> arg_recordable a\<rparr>"
    by simp
  then show ?thesis
    using assms by (auto simp add: declare_option_def args_refused_def Let_def)
qed

lemma declare_option_stored:
  "\<not> args_refused a \<Longrightarrow> dict (fst (declare_option self name a)) = (dict self)(name \<mapsto> new_meta a)"
  by (simp add: declare_option_accepted assert_valid_keeps)

lemma declare_option_ok_not_refused:
  "snd (declare_option self name a) = Inr u \<Longrightarrow> \<not> args_refused a"
  using declare_option_refused [of a self name] by auto

lemma declare_option_keeps:
  "parent_name (fst (declare_option self name a)) = parent_name self"
  "read_only (fst (declare_option self name a)) = read_only self"
  by (cases "args_refused a";
      simp add: declare_option_refused declare_option_accepted assert_valid_keeps)+

lemma notices_append: "notices (xs @ ys) = notices xs @ notices ys"
  by (induction xs rule: notices.induct) simp_all

lemma validations_append: "validations (xs @ ys) = validations xs @ validations ys"
  by (induction xs rule: validations.induct) simp_all

lemma assert_valid_notices:
  "notices (calls (fst (assert_valid self name v))) = notices (calls self)"
  by (simp add: assert_valid_def Let_def notices_append split: option.splits)

lemma declare_option_notices:
  "notices (calls (fst (declare_option self name a))) = notices (calls self)"
  by (cases "args_refused a")
    (simp_all add: declare_option_refused declare_option_accepted assert_valid_notices)

lemma deprecate_notices:
  "notices (calls (fst (deprecate self name m))) =
     notices (calls self) @ (if need_deprecation m then [deprecation m] else [])"
  by (simp add: deprecate_calls notices_append)

lemma perform_notices:
  assumes "dict self name = Some m"
  shows "notices (calls (perform self name x)) =
           notices (calls self) @ (if need_deprecation m then [deprecation m] else [])"
proof (cases x)
  case Read
  then show ?thesis
    using assms by (simp add: getitem_declared deprecate_notices)
next
  case (Write v)
  then show ?thesis
    using assms
    by (simp add: setitem_declared deprecate_notices assert_valid_notices split: sum.splits)
qed

lemma perform_flag_cleared:
  assumes "dict self name = Some m"
  shows "\<exists>m'. dict (perform self name x) name = Some m' \<and> \<not> need_deprecation m' \<and>
               deprecation m' = deprecation m"
proof (cases x)
  case Read
  then show ?thesis
    using assms by (simp add: getitem_declared deprecate_dict)
next
  case (Write v)
  then show ?thesis
    using assms
    by (simp add: setitem_declared deprecate_dict assert_valid_keeps split: sum.splits)
qed

lemma run_notices_cleared:
  "dict self name = Some m \<Longrightarrow> \<not> need_deprecation m \<Longrightarrow>
   notices (calls (run self name xs)) = notices (calls self)"
proof (induction xs arbitrary: self m)
  case Nil
  then show ?case by simp
next
  case (Cons x xs)
  obtain m' where m': "dict (perform self name x) name = Some m'" "\<not> need_deprecation m'"
    using perform_flag_cleared [OF Cons.prems(1)] by blast
  have "notices (calls (perform self name x)) = notices (calls self)"
    using perform_notices [OF Cons.prems(1), of x] Cons.prems(2) by simp
  then show ?case
    using Cons.IH [OF m'] by simp
qed

lemma run_notices:
  assumes "dict self name = Some m"
  shows "notices (calls (run self name xs)) =
           notices (calls self) @ (if need_deprecation m \<and> xs \<noteq> [] then [deprecation m] else [])"
proof (cases xs)
  case Nil
  then show ?thesis by simp
next
  case (Cons x ys)
  obtain m' where m': "dict (perform self name x) name = Some m'" "\<not> need_deprecation m'"
    using perform_flag_cleared [OF assms] by blast
  show ?thesis
    using run_notices_cleared [OF m', of ys] perform_notices [OF assms, of x] Cons by simp
qed

lemma new_meta_sel:
  "val (new_meta a) = arg_default a"
  "values_m (new_meta a) =
     (if arg_types a = TypeOne T_bool then Values [PBool True, PBool False] else arg_values a)"
  "types (new_meta a) = arg_types a"
  "upper (new_meta a) = arg_upper a"
  "lower (new_meta a) = arg_lower a"
  "check_valid_m (new_meta a) = arg_check_valid a"
  "has_been_set (new_meta a) = (arg_default a \<noteq> PUndefined)"
  "allow_none (new_meta a) = (arg_default a = PNone \<or> arg_allow_none a)"
  "deprecation (new_meta a) = arg_deprecation a"
  "need_deprecation (new_meta a) = (arg_deprecation a \<noteq> None)"
  by (auto simp add: new_meta_def Let_def)

lemmas ex_defs =
  declare_option_def init_def new_meta_def declare_defaults_def args_refused_def Let_def

section \<open>Claims\<close>

text \<open>
  Claim C1, as amended. For a declared slot whose \<^verbatim>\<open>allow_none\<close> is true, validating
  \<^verbatim>\<open>None\<close> skips the checks of \<^verbatim>\<open>values\<close>, \<^verbatim>\<open>types\<close>, \<^verbatim>\<open>upper\<close> and \<^verbatim>\<open>lower\<close>, whatever
  they are; the slot's \<^verbatim>\<open>check_valid\<close> function, when there is one, is still called with the
  name and \<^verbatim>\<open>None\<close>, and the validation raises exactly what that call raises. With no such
  function, \<^verbatim>\<open>None\<close> is accepted and nothing is called.
\<close>

theorem none_with_allow_none_reaches_validator_only:
  assumes "dict self name = Some m" and "allow_none m"
  shows "assert_valid self name PNone =
     (case check_valid_m m of
        None \<Rightarrow> (self, Inr ())
      | Some f \<Rightarrow>
          (self\<lparr>calls := calls self @ [CallCheckValid name PNone]\<rparr>,
           case f name PNone of Some e \<Rightarrow> Inl e | None \<Rightarrow> Inr ()))"
  using assms by (simp add: assert_valid_declared guarded_checks_def)

text \<open>
  The theorem at \<^verbatim>\<open>declare('x', values=[1, 2], upper=0, allow_none=True)\<close>: \<^verbatim>\<open>None\<close> is
  neither 1 nor 2, and it is accepted.
\<close>

theorem none_with_allow_none_witness:
  "dict ex_none ''x'' = Some (new_meta ex_none_args) \<and> allow_none (new_meta ex_none_args) \<and>
   values_m (new_meta ex_none_args) = Values [PInt 1, PInt 2] \<and>
   upper (new_meta ex_none_args) = PInt 0 \<and>
   assert_valid ex_none ''x'' PNone = (ex_none, Inr ())"
  using none_with_allow_none_reaches_validator_only [of ex_none "''x''" "new_meta ex_none_args"]
  by (simp add: ex_none_def ex_none_args_def ex_defs)

text \<open>
  Claim C1 as stated fails: with \<^verbatim>\<open>allow_none\<close> true and the module's own \<^verbatim>\<open>check_valid\<close> as
  the slot's validator, validating \<^verbatim>\<open>None\<close> calls the validator, which raises, and so does
  writing \<^verbatim>\<open>None\<close>.
\<close>

theorem none_with_allow_none_validator_raises:
  "map_option allow_none (dict ex_none_checked ''x'') = Some True \<and>
   snd (assert_valid ex_none_checked ''x'' PNone) = Inl (Exn ValueError None (NotValid ''x'' PNone)) \<and>
   validations (calls (fst (assert_valid ex_none_checked ''x'' PNone))) = [(''x'', PNone)] \<and>
   snd (setitem ex_none_checked ''x'' PNone) = Inl (Exn ValueError None (NotValid ''x'' PNone))"
  by (simp add: ex_none_checked_def ex_none_args_def ex_defs assert_valid_def setitem_def
      deprecate_def guarded_checks_def check_valid_def)

text \<open>
  Claim C2 at the input \<^verbatim>\<open>declare('flag', types=bool)\<close>, \<^verbatim>\<open>opts['flag'] = 1\<close>: the
  integer 1 is not an instance of \<^verbatim>\<open>bool\<close>, yet the write returns and the slot holds the
  integer 1, because \<^verbatim>\<open>1 in (True, False)\<close> holds in Python.
\<close>

theorem bool_option_stores_int_one:
  "snd (declare_option (init None False) ''flag'' (declare_defaults\<lparr>arg_types := TypeOne T_bool\<rparr>)) = Inr () \<and>
   isinstance (PInt 1) (TypeOne T_bool) = Inr False \<and>
   snd (setitem ex_flag ''flag'' (PInt 1)) = Inr () \<and>
   map_option val (dict (fst (setitem ex_flag ''flag'' (PInt 1))) ''flag'') = Some (PInt 1)"
  by (simp add: ex_flag_def ex_defs assert_valid_def setitem_def
      deprecate_def guarded_checks_def check_values_types_def check_upper_def check_lower_def
      py_in_def py_eq_def issubclass_def)


text \<open>
  Claim C4. After a slot is declared with a deprecation message, a sequence of reads and writes
  of that slot, whether each returns or raises, calls \<^verbatim>\<open>warn_deprecation\<close> exactly once, with
  that message, when the sequence is not empty (the first access makes the call), and not at
  all when it is empty; the declaration itself makes no such call.
\<close>

theorem deprecation_notified_once:
  assumes "snd (declare_option self name a) = Inr ()" and "arg_deprecation a = Some msg"
  shows "notices (calls (run (fst (declare_option self name a)) name xs)) =
           notices (calls self) @ (if xs = [] then [] else [Some msg])"
proof -
  have "dict (fst (declare_option self name a)) name = Some (new_meta a)"
    using declare_option_stored [OF declare_option_ok_not_refused [OF assms(1)]] by simp
  from run_notices [OF this, of xs] show ?thesis
    using assms(2) by (simp add: declare_option_notices new_meta_sel)
qed

text \<open>
  The theorem at \<^verbatim>\<open>declare('old', deprecation='use new')\<close> followed by a read, a write, a read
  and a write.
\<close>

theorem deprecation_notified_once_witness:
  "snd (declare_option (init None False) ''old'' ex_old_args) = Inr () \<and>
   arg_deprecation ex_old_args = Some ''use new'' \<and>
   notices (calls (run ex_old ''old'' [Read, Write (PInt 3), Read, Write PNone])) = [Some ''use new'']"
  using deprecation_notified_once [of "init None False" "''old''" ex_old_args "''use new''"
      "[Read, Write (PInt 3), Read, Write PNone]"]
  by (simp add: ex_old_def ex_old_args_def ex_defs)








text \<open>
  Claim C5. In a read-only dictionary, a write to a declared slot raises the \<^verbatim>\<open>KeyError\<close>
  "Tried to set read-only option", whatever the value and the slot's rules; the stored value
  and the \<^verbatim>\<open>has_been_set\<close> flag of every slot are as before, and no \<^verbatim>\<open>check_valid\<close> function
  is called.
\<close>

theorem read_only_write_refused:
  assumes "read_only self" and "dict self name = Some m"
  shows "snd (setitem self name v) = Inl (Exn KeyError (parent_name self) (ReadOnlyOption name)) \<and>
         (\<forall>n. map_option val (dict (fst (setitem self name v)) n) = map_option val (dict self n) \<and>
              map_option has_been_set (dict (fst (setitem self name v)) n) =
                map_option has_been_set (dict self n)) \<and>
         validations (calls (fst (setitem self name v))) = validations (calls self)"
  using assms
  by (simp add: setitem_declared raise_def deprecate_dict deprecate_calls validations_append)

text \<open>
  The theorem at a read-only dictionary with \<^verbatim>\<open>declare('old', deprecation='use new')\<close>, a
  slot that was never set.
\<close>

theorem read_only_write_refused_witness:
  "read_only ex_old_ro \<and> dict ex_old_ro ''old'' = Some (new_meta ex_old_args) \<and>
   snd (setitem ex_old_ro ''old'' (PInt 1)) = Inl (Exn KeyError None (ReadOnlyOption ''old'')) \<and>
   map_option val (dict (fst (setitem ex_old_ro ''old'' (PInt 1))) ''old'') = Some PUndefined \<and>
   map_option has_been_set (dict (fst (setitem ex_old_ro ''old'' (PInt 1))) ''old'') = Some False"
  using read_only_write_refused [of ex_old_ro "''old''" "new_meta ex_old_args" "PInt 1"]
  by (simp add: ex_old_ro_def ex_old_args_def ex_defs)

text \<open>
  Claim C10. In a read-only dictionary, a write to a declared slot that still needs its
  deprecation warning calls \<^verbatim>\<open>warn_deprecation\<close> with the slot's message, clears
  \<^verbatim>\<open>need_deprecation\<close> in the slot and then raises the read-only \<^verbatim>\<open>KeyError\<close>; nothing else
  of the slot or of the dictionary changes.
\<close>

theorem read_only_write_consumes_notice:
  assumes "read_only self" and "dict self name = Some m" and "need_deprecation m"
  shows "setitem self name v =
           (self\<lparr>dict := (dict self)(name \<mapsto> m\<lparr>need_deprecation := False\<rparr>),
                 calls := calls self @ [WarnDeprecation (deprecation m)]\<rparr>,
            Inl (Exn KeyError (parent_name self) (ReadOnlyOption name)))"
  using assms by (simp add: setitem_declared raise_def deprecate_def Let_def)

text \<open>The theorem at the same read-only dictionary and the write of 1.\<close>

theorem read_only_write_consumes_notice_witness:
  "read_only ex_old_ro \<and> dict ex_old_ro ''old'' = Some (new_meta ex_old_args) \<and>
   need_deprecation (new_meta ex_old_args) \<and>
   calls (fst (setitem ex_old_ro ''old'' (PInt 1))) = [WarnDeprecation (Some ''use new'')] \<and>
   dict (fst (setitem ex_old_ro ''old'' (PInt 1))) ''old'' =
     Some ((new_meta ex_old_args)\<lparr>need_deprecation := False\<rparr>) \<and>
   snd (setitem ex_old_ro ''old'' (PInt 1)) = Inl (Exn KeyError None (ReadOnlyOption ''old''))"
  using read_only_write_consumes_notice [of ex_old_ro "''old''" "new_meta ex_old_args" "PInt 1"]
  by (simp add: ex_old_ro_def ex_old_args_def ex_defs)



lemma setitem_ok_declared:
  assumes "snd (setitem self name v) = Inr u"
  shows "\<exists>m. dict (fst (setitem self name v)) name = Some m \<and> val m = v \<and> has_been_set m"
proof (cases "dict self name")
  case None
  then show ?thesis
    using assms by (simp add: setitem_undeclared)
next
  case (Some m0)
  then show ?thesis
    using setitem_dict_ok [OF Some assms] by simp
qed





text \<open>Reads and failing writes keep the value and the \<^verbatim>\<open>has_been_set\<close> flag of a slot.\<close>

lemma run_unset:
  "dict self name = Some m \<Longrightarrow> no_write_succeeds self name xs \<Longrightarrow>
   \<exists>m'. dict (run self name xs) name = Some m' \<and> val m' = val m \<and>
        has_been_set m' = has_been_set m"
proof (induction xs arbitrary: self m)
  case Nil
  then show ?case by simp
next
  case (Cons x xs)
  have "\<exists>m1. dict (perform self name x) name = Some m1 \<and> val m1 = val m \<and>
          has_been_set m1 = has_been_set m \<and> no_write_succeeds (perform self name x) name xs"
  proof (cases x)
    case Read
    then show ?thesis
      using Cons.prems by (simp add: getitem_declared deprecate_dict)
  next
    case (Write v)
    then obtain e where e: "snd (setitem self name v) = Inl e"
      using Cons.prems(2) by (auto simp add: isl_def)
    show ?thesis
      using Cons.prems Write setitem_dict_fail [OF Cons.prems(1) e] by simp
  qed
  then obtain m1 where m1: "dict (perform self name x) name = Some m1" "val m1 = val m"
      "has_been_set m1 = has_been_set m" "no_write_succeeds (perform self name x) name xs"
    by blast
  show ?case
    using Cons.IH [OF m1(1) m1(4)] m1(2,3) by simp
qed

lemma run_keeps: "parent_name (run self name xs) = parent_name self"
proof (induction xs arbitrary: self)
  case Nil
  then show ?case by simp
next
  case (Cons x xs)
  have "parent_name (perform self name x) = parent_name self"
  proof (cases x)
    case Read
    then show ?thesis
      by (cases "dict self name") (simp_all add: getitem_undeclared getitem_declared deprecate_keeps)
  next
    case (Write v)
    then show ?thesis by (simp add: setitem_keeps)
  qed
  then show ?case
    using Cons.IH [of "perform self name x"] by simp
qed

text \<open>
  Claim C7. After a slot is declared without a default, and after any reads and writes of it of
  which no write returned, reading it raises the \<^verbatim>\<open>RuntimeError\<close> "is required but has not
  been set". Once a write of \<open>v\<close> returns, a read returns \<open>v\<close>, also after further reads and
  after writes that raise.
\<close>

theorem read_requires_a_write:
  assumes "snd (declare_option self name a) = Inr ()" and "arg_default a = PUndefined"
    and "no_write_succeeds (fst (declare_option self name a)) name xs"
  shows "snd (getitem (run (fst (declare_option self name a)) name xs) name) =
           Inl (Exn RuntimeError (parent_name self) (RequiredNotSet name)) \<and>
         (snd (setitem (run (fst (declare_option self name a)) name xs) name v) = Inr () \<longrightarrow>
            (\<forall>ys. no_write_succeeds
                    (fst (setitem (run (fst (declare_option self name a)) name xs) name v)) name ys \<longrightarrow>
                  snd (getitem
                        (run (fst (setitem (run (fst (declare_option self name a)) name xs) name v))
                           name ys) name) = Inr v))"
proof -
  let ?s1 = "fst (declare_option self name a)"
  let ?s2 = "run ?s1 name xs"
  let ?s3 = "fst (setitem ?s2 name v)"
  have d1: "dict ?s1 name = Some (new_meta a)"
    using declare_option_stored [OF declare_option_ok_not_refused [OF assms(1)]] by simp
  obtain m2 where m2: "dict ?s2 name = Some m2" "has_been_set m2 = has_been_set (new_meta a)"
    using run_unset [OF d1 assms(3)] by blast
  have pn: "parent_name ?s2 = parent_name self"
    by (simp add: run_keeps declare_option_keeps)
  have 1: "snd (getitem ?s2 name) = Inl (Exn RuntimeError (parent_name self) (RequiredNotSet name))"
    using m2 assms(2) by (simp add: getitem_declared new_meta_sel raise_def pn)
  have 2: "snd (getitem (run ?s3 name ys) name) = Inr v"
    if ok: "snd (setitem ?s2 name v) = Inr ()" and ys: "no_write_succeeds ?s3 name ys" for ys
  proof -
    obtain m3 where m3: "dict ?s3 name = Some m3" "val m3 = v" "has_been_set m3"
      using setitem_ok_declared [OF ok] by blast
    obtain m4 where "dict (run ?s3 name ys) name = Some m4" "val m4 = v" "has_been_set m4"
      using run_unset [OF m3(1) ys] m3(2,3) by auto
    then show ?thesis
      by (simp add: getitem_declared)
  qed
  show ?thesis
    using 1 2 by blast
qed

text \<open>The theorem at \<^verbatim>\<open>declare('a')\<close>, a read, the write of 7 and three reads.\<close>

theorem read_requires_a_write_witness:
  "snd (declare_option (init None False) ''a'' declare_defaults) = Inr () \<and>
   arg_default declare_defaults = PUndefined \<and>
   no_write_succeeds (fst (declare_option (init None False) ''a'' declare_defaults)) ''a'' [Read] \<and>
   snd (getitem (run (fst (declare_option (init None False) ''a'' declare_defaults)) ''a'' [Read]) ''a'') =
     Inl (Exn RuntimeError None (RequiredNotSet ''a'')) \<and>
   snd (setitem (run (fst (declare_option (init None False) ''a'' declare_defaults)) ''a'' [Read])
          ''a'' (PInt 7)) = Inr () \<and>
   no_write_succeeds
     (fst (setitem (run (fst (declare_option (init None False) ''a'' declare_defaults)) ''a'' [Read])
             ''a'' (PInt 7))) ''a'' [Read, Read] \<and>
   snd (getitem
         (run (fst (setitem (run (fst (declare_option (init None False) ''a'' declare_defaults))
                               ''a'' [Read]) ''a'' (PInt 7))) ''a'' [Read, Read]) ''a'') =
     Inr (PInt 7)"
  using read_requires_a_write [of "init None False" "''a''" declare_defaults "[Read]" "PInt 7"]
  by (simp add: ex_defs getitem_def setitem_def deprecate_def assert_valid_def guarded_checks_def
      check_values_types_def check_upper_def check_lower_def raise_def)

text \<open>
  Claim C8. \<^verbatim>\<open>get\<close> changes nothing in the dictionary (the deprecation flag and the log of
  calls included) and never raises: it returns the stored value of a declared name and the
  given default of a name that is absent. For a slot declared without a default, of which no
  write returned, that stored value is \<^verbatim>\<open>_UNDEFINED\<close>, not the given default.
\<close>

theorem get_returns_stored_or_default:
  "fst (get self name d) = self \<and>
   snd (get self name d) = (case dict self name of Some m \<Rightarrow> Inr (val m) | None \<Rightarrow> Inr d) \<and>
   (snd (declare_option self name a) = Inr () \<and> arg_default a = PUndefined \<and>
    no_write_succeeds (fst (declare_option self name a)) name xs \<longrightarrow>
      snd (get (run (fst (declare_option self name a)) name xs) name d) = Inr PUndefined)"
proof -
  have "snd (get (run (fst (declare_option self name a)) name xs) name d) = Inr PUndefined"
    if ok: "snd (declare_option self name a) = Inr ()" and un: "arg_default a = PUndefined"
      and xs: "no_write_succeeds (fst (declare_option self name a)) name xs"
  proof -
    have "dict (fst (declare_option self name a)) name = Some (new_meta a)"
      using declare_option_stored [OF declare_option_ok_not_refused [OF ok]] by simp
    from run_unset [OF this xs] show ?thesis
      using un by (auto simp add: get_def new_meta_sel)
  qed
  then show ?thesis
    by (simp add: get_def split: option.splits)
qed

text \<open>The theorem at \<^verbatim>\<open>declare('a')\<close> and \<^verbatim>\<open>get('a', 0)\<close>, beside \<^verbatim>\<open>get('z', 0)\<close>.\<close>

theorem get_returns_stored_or_default_witness:
  "snd (declare_option (init None False) ''a'' declare_defaults) = Inr () \<and>
   arg_default declare_defaults = PUndefined \<and>
   no_write_succeeds (fst (declare_option (init None False) ''a'' declare_defaults)) ''a'' [] \<and>
   get (run (fst (declare_option (init None False) ''a'' declare_defaults)) ''a'' []) ''a'' (PInt 0) =
     (fst (declare_option (init None False) ''a'' declare_defaults), Inr PUndefined) \<and>
   get (fst (declare_option (init None False) ''a'' declare_defaults)) ''z'' (PInt 0) =
     (fst (declare_option (init None False) ''a'' declare_defaults), Inr (PInt 0))"
  using get_returns_stored_or_default [of "init None False" "''a''" "PInt 0" declare_defaults "[]"]
  by (simp add: ex_defs get_def)

text \<open>
  Claim C9. When a declaration passes the three argument checks and still raises, the exception
  is the one the validation of the default raised, after the slot was stored: the slot exists,
  holds the default with \<^verbatim>\<open>has_been_set\<close> true, and a read returns the default.
\<close>

theorem failed_default_is_stored:
  assumes "\<not> args_refused a" and "snd (declare_option self name a) = Inl e"
  shows "arg_default a \<noteq> PUndefined \<and>
         declare_option self name a =
           assert_valid
             (self\<lparr>all_recordable := all_recordable self \<and> arg_recordable a,
                   dict := (dict self)(name \<mapsto> new_meta a)\<rparr>) name (arg_default a) \<and>
         map_option val (dict (fst (declare_option self name a)) name) = Some (arg_default a) \<and>
         map_option has_been_set (dict (fst (declare_option self name a)) name) = Some True \<and>
         snd (getitem (fst (declare_option self name a)) name) = Inr (arg_default a)"
proof -
  have dflt: "arg_default a \<noteq> PUndefined"
    using assms by (auto simp add: declare_option_accepted split: if_splits)
  have d: "dict (fst (declare_option self name a)) name = Some (new_meta a)"
    using declare_option_stored [OF assms(1)] by simp
  show ?thesis
    using dflt d assms(1) by (simp add: getitem_declared new_meta_sel declare_option_accepted)
qed

text \<open>The theorem at \<^verbatim>\<open>declare('mode', default=5, values=[1, 2])\<close>.\<close>

theorem failed_default_is_stored_witness:
  "\<not> args_refused ex_mode_args \<and>
   snd (declare_option (init None False) ''mode'' ex_mode_args) =
     Inl (Exn ValueError None (NotOneOf ''mode'' (PInt 5) [PInt 1, PInt 2])) \<and>
   map_option val (dict (fst (declare_option (init None False) ''mode'' ex_mode_args)) ''mode'') =
     Some (PInt 5) \<and>
   map_option has_been_set
     (dict (fst (declare_option (init None False) ''mode'' ex_mode_args)) ''mode'') = Some True \<and>
   snd (getitem (fst (declare_option (init None False) ''mode'' ex_mode_args)) ''mode'') =
     Inr (PInt 5)"
  using failed_default_is_stored [of ex_mode_args "init None False" "''mode''"
      "Exn ValueError None (NotOneOf ''mode'' (PInt 5) [PInt 1, PInt 2])"]
  by (simp add: ex_mode_args_def ex_defs getitem_def deprecate_def assert_valid_def
      guarded_checks_def check_values_types_def py_in_def py_eq_def raise_def)

end
